theory Spec2Isabelle
  imports Complex_Main
begin

section \<open>The generate-selfie tool server: a model of \<open>src/index.ts\<close>\<close>

text \<open>
  The server exposes one tool, \<open>generate-selfie\<close>, whose handler submits a workflow to a
  ComfyUI engine through the \<open>CallWrapper\<close> of the client library, awaits a promise that
  the wrapper's callbacks settle, optionally re-hosts the produced image on S3, and
  returns a tool result. Two HTTP routes keep a registry of SSE transports by session
  identifier.

  What the model makes explicit:
  \<^item> a JavaScript \<open>throw\<close> (or a rejected awaited promise) is a value of \<open>thrown\<close>;
  \<^item> the promise built at line 218 is a three-state value that settles at most once,
    as promises do: \<open>resolve\<close> and \<open>reject\<close> on a settled promise are no-ops;
  \<^item> what the collaborators do (the engine's callbacks, \<open>sendNotification\<close>,
    \<open>Math.random\<close>, \<open>fetch\<close>, the S3 client) is an input of the model, so that
    theorems quantify over all of it. An awaited collaborator call returns or throws;
    only the awaited job promise can stay unsettled, when no terminal callback comes;
  \<^item> the callbacks are \<open>async\<close> functions without a \<open>try\<close>: when the
    \<open>sendNotification\<close> that a callback awaits rejects, the callback stops there, its
    own promise rejects, nothing handles that rejection, and the Node process ends. So
    an execution is a sequence of callbacks handled to their end, followed by at most
    one callback whose send rejects;
  \<^item> callbacks of one job are delivered one after the other; once the awaited promise
    has settled, the rest of the handler is taken to run to its end before the next
    callback;
  \<^item> the request \<open>api.interrupt()\<close> is taken not to fail;
  \<^item> \<open>console.log\<close> and \<open>console.error\<close> are not modelled.
\<close>

subsection \<open>Thrown values and completions\<close>

text \<open>
  A thrown JavaScript value: an \<open>Error\<close> object with its \<open>message\<close>, or any other
  value, kept as the string \<open>String(value)\<close> gives.
\<close>

datatype thrown = Error string | NonError string

text \<open>Line 326: \<open>error instanceof Error ? error.message : String(error)\<close>.\<close>

definition error_message :: "thrown \<Rightarrow> string" where
  "error_message e = (case e of Error m \<Rightarrow> m | NonError s \<Rightarrow> s)"

text \<open>Line 246: \<open>err instanceof Error ? err : new Error(String(err))\<close>.\<close>

definition as_error :: "thrown \<Rightarrow> thrown" where
  "as_error e = (case e of Error m \<Rightarrow> Error m | NonError s \<Rightarrow> Error s)"

text \<open>
  How a call of an \<open>async\<close> function ends: it returns a value, it throws, the promise
  it awaits never settles, or the process ends under it on an unhandled rejection.
\<close>

datatype 'a completion = Returns 'a | Throws thrown | Never | ProcessExits thrown

subsection \<open>The promise of line 218\<close>

datatype promise_state = Pending | Fulfilled string | Rejected thrown

definition resolve :: "string \<Rightarrow> promise_state \<Rightarrow> promise_state" where
  "resolve v p = (case p of Pending \<Rightarrow> Fulfilled v | _ \<Rightarrow> p)"

definition reject :: "thrown \<Rightarrow> promise_state \<Rightarrow> promise_state" where
  "reject e p = (case p of Pending \<Rightarrow> Rejected e | _ \<Rightarrow> p)"

definition settled :: "promise_state \<Rightarrow> bool" where
  "settled p = (p \<noteq> Pending)"

subsection \<open>Progress tokens, numbers and notifications\<close>

text \<open>
  A progress token is a string or a number. The handler tests it with
  \<open>if (_meta?.progressToken)\<close>, which is JavaScript truthiness: an absent token, the
  empty string and the number zero are all falsy.
\<close>

datatype progress_token = StrToken string | NumToken int

fun truthy :: "progress_token option \<Rightarrow> bool" where
  "truthy None = False"
| "truthy (Some (StrToken s)) = (s \<noteq> [])"
| "truthy (Some (NumToken n)) = (n \<noteq> 0)"

text \<open>
  The value of \<open>info.value / info.max\<close>. The operands are the finite numbers of the
  engine's progress message; the quotient is taken exactly (the rounding of the IEEE
  division is not modelled, nor is negative zero), and division by zero gives the
  non-finite values JavaScript gives.
\<close>

datatype js_number = Num real | PosInfinity | NegInfinity | NaN

definition js_div :: "real \<Rightarrow> real \<Rightarrow> js_number" where
  "js_div a b =
     (if b \<noteq> 0 then Num (a / b)
      else if a = 0 then NaN
      else if 0 < a then PosInfinity
      else NegInfinity)"

record notification =
  method_name :: string
  progressToken :: progress_token
  progress :: js_number

subsection \<open>What the engine delivers\<close>

record image_info =
  filename :: string
  subfolder :: string
  image_type :: string

text \<open>
  The argument of \<open>onFinished\<close>: the slot \<open>generated_image\<close> may be absent, and so may its
  \<open>images\<close> list.
\<close>

record node_output =
  images :: "image_info list option"

record job_output =
  generated_image :: "node_output option"

record progress_info =
  node :: string
  pvalue :: real
  pmax :: real

datatype callback =
    OnFinished job_output
  | OnFailed thrown string
  | OnStart
  | OnPending
  | OnProgress progress_info string

text \<open>
  What the world is like while a callback runs: the value \<open>signal.aborted\<close> has if the
  callback reads it.
\<close>

record moment =
  aborted :: bool

text \<open>
  An event of the job: one of the five callbacks that the handler hooks on the
  \<open>CallWrapper\<close>, delivered at some moment. The handler hooks nothing else.
\<close>

datatype remote_event = Callback callback moment

fun terminal :: "remote_event \<Rightarrow> bool" where
  "terminal (Callback (OnFinished _) _) = True"
| "terminal (Callback (OnFailed _ _) _) = True"
| "terminal _ = False"

subsection \<open>The job adapter: the promise executor of lines 218 to 302\<close>

record adapter_state =
  promise :: promise_state
  sent :: "notification list"
  interrupts :: nat

definition initial_state :: adapter_state where
  "initial_state = \<lparr>promise = Pending, sent = [], interrupts = 0\<rparr>"

text \<open>
  The guarded send \<open>if (_meta?.progressToken) { await sendNotification(...) }\<close>, with
  the way the send ends if it is made (\<open>None\<close>: it returns). The call is recorded in
  \<open>sent\<close>; the first component is the error thrown at the \<open>await\<close>, if any.
\<close>

definition send_progress ::
  "progress_token option \<Rightarrow> js_number \<Rightarrow> thrown option \<Rightarrow> adapter_state
   \<Rightarrow> thrown option \<times> adapter_state" where
  "send_progress tok v outcome s =
     (if truthy tok then
        (case tok of
           None \<Rightarrow> (None, s)
         | Some t \<Rightarrow>
             (outcome,
              s\<lparr>sent := sent s @
                 [\<lparr>method_name = ''notifications/progress'', progressToken = t, progress = v\<rparr>]\<rparr>))
      else (None, s))"

text \<open>\<open>if (signal.aborted) { api.interrupt(); }\<close>\<close>

definition poll_signal :: "bool \<Rightarrow> adapter_state \<Rightarrow> adapter_state" where
  "poll_signal is_aborted s =
     (if is_aborted then s\<lparr>interrupts := Suc (interrupts s)\<rparr> else s)"

text \<open>
  A callback that sends and then polls (\<open>onPending\<close>, \<open>onProgress\<close>): when the awaited
  send rejects, the callback ends there with that error and the poll is not reached.
  The first component of the result is the error the callback's own promise is
  rejected with, if any.
\<close>

definition send_then_poll ::
  "progress_token option \<Rightarrow> js_number \<Rightarrow> thrown option \<Rightarrow> moment \<Rightarrow> adapter_state
   \<Rightarrow> thrown option \<times> adapter_state" where
  "send_then_poll tok v outcome m s =
     (case send_progress tok v outcome s of
        (Some err, s') \<Rightarrow> (Some err, s')
      | (None, s') \<Rightarrow> (None, poll_signal (aborted m) s'))"

definition not_found_message :: string where
  "not_found_message = ''Generated image data not found in ComfyUI response.''"

text \<open>
  \<open>onFinished\<close>, lines 220 to 248. \<open>getPathImage\<close> is the engine client's rule that
  builds the URL of an image; it is a parameter, and may throw.
\<close>

definition onFinished ::
  "(image_info \<Rightarrow> thrown + string) \<Rightarrow> job_output \<Rightarrow> adapter_state \<Rightarrow> adapter_state" where
  "onFinished getPathImage data s =
     (case generated_image data of
        None \<Rightarrow> s\<lparr>promise := reject (Error not_found_message) (promise s)\<rparr>
      | Some outputData \<Rightarrow>
          (case images outputData of
             None \<Rightarrow> s\<lparr>promise := reject (Error not_found_message) (promise s)\<rparr>
           | Some [] \<Rightarrow> s\<lparr>promise := reject (Error not_found_message) (promise s)\<rparr>
           | Some (imageInfo # _) \<Rightarrow>
               (case getPathImage imageInfo of
                  Inr url \<Rightarrow> s\<lparr>promise := resolve url (promise s)\<rparr>
                | Inl err \<Rightarrow> s\<lparr>promise := reject (as_error err) (promise s)\<rparr>)))"

text \<open>\<open>onFailed\<close>, lines 249 to 255.\<close>

definition onFailed :: "thrown \<Rightarrow> string \<Rightarrow> adapter_state \<Rightarrow> adapter_state" where
  "onFailed err promptId s = s\<lparr>promise := reject err (promise s)\<rparr>"

text \<open>
  \<open>onStart\<close>, lines 256 to 266: a guarded send and no poll. As for the two callbacks
  after it, \<open>outcome\<close> is the way the send ends if it is made, and the first component of
  the result is the error the callback ends with, if any.
\<close>

definition onStart ::
  "progress_token option \<Rightarrow> thrown option \<Rightarrow> adapter_state
   \<Rightarrow> thrown option \<times> adapter_state" where
  "onStart tok outcome s = send_progress tok (Num 0) outcome s"

text \<open>\<open>onPending\<close>, lines 267 to 281.\<close>

definition onPending ::
  "progress_token option \<Rightarrow> thrown option \<Rightarrow> moment \<Rightarrow> adapter_state
   \<Rightarrow> thrown option \<times> adapter_state" where
  "onPending tok outcome m s = send_then_poll tok (Num 0) outcome m s"

text \<open>\<open>onProgress\<close>, lines 282 to 300.\<close>

definition onProgress ::
  "progress_token option \<Rightarrow> progress_info \<Rightarrow> string \<Rightarrow> thrown option \<Rightarrow> moment
   \<Rightarrow> adapter_state \<Rightarrow> thrown option \<times> adapter_state" where
  "onProgress tok info promptId outcome m s =
     send_then_poll tok (js_div (pvalue info) (pmax info)) outcome m s"

text \<open>
  The delivery of one event to the hooks. The first component of the result is the
  error of the unhandled rejection that the callback leaves behind, if any: with it the
  process ends.
\<close>

fun deliver ::
  "(image_info \<Rightarrow> thrown + string) \<Rightarrow> progress_token option \<Rightarrow> thrown option
   \<Rightarrow> adapter_state \<Rightarrow> remote_event \<Rightarrow> thrown option \<times> adapter_state" where
  "deliver gp tok outcome s (Callback (OnFinished data) m) = (None, onFinished gp data s)"
| "deliver gp tok outcome s (Callback (OnFailed err promptId) m) =
     (None, onFailed err promptId s)"
| "deliver gp tok outcome s (Callback OnStart m) = onStart tok outcome s"
| "deliver gp tok outcome s (Callback OnPending m) = onPending tok outcome m s"
| "deliver gp tok outcome s (Callback (OnProgress info promptId) m) =
     onProgress tok info promptId outcome m s"

text \<open>
  An event handled to its end: the send of its callback, if made, returns. The run of
  a sequence of such events.
\<close>

definition step ::
  "(image_info \<Rightarrow> thrown + string) \<Rightarrow> progress_token option \<Rightarrow> adapter_state
   \<Rightarrow> remote_event \<Rightarrow> adapter_state" where
  "step gp tok s ev = snd (deliver gp tok None s ev)"

definition run ::
  "(image_info \<Rightarrow> thrown + string) \<Rightarrow> progress_token option \<Rightarrow> adapter_state
   \<Rightarrow> remote_event list \<Rightarrow> adapter_state" where
  "run gp tok s evs = foldl (step gp tok) s evs"

text \<open>
  The number of events of a run at which the promise changes its state, that is, at
  which it settles.
\<close>

fun settlements ::
  "(image_info \<Rightarrow> thrown + string) \<Rightarrow> progress_token option \<Rightarrow> adapter_state
   \<Rightarrow> remote_event list \<Rightarrow> nat" where
  "settlements gp tok s [] = 0"
| "settlements gp tok s (ev # evs) =
     (if promise (step gp tok s ev) \<noteq> promise s then 1 else 0)
     + settlements gp tok (step gp tok s ev) evs"

subsection \<open>Strings\<close>

text \<open>\<open>String.prototype.includes\<close>: the needle occurs somewhere in the string.\<close>

fun str_includes :: "string \<Rightarrow> string \<Rightarrow> bool" where
  "str_includes [] needle = (needle = [])"
| "str_includes (c # cs) needle =
     (take (length needle) (c # cs) = needle \<or> str_includes cs needle)"

text \<open>Lower-casing of the ASCII letters, for comparisons that ignore case.\<close>

definition to_lower :: "char \<Rightarrow> char" where
  "to_lower c =
     (if 65 \<le> (of_char c :: nat) \<and> (of_char c :: nat) \<le> 90
      then char_of ((of_char c :: nat) + 32) else c)"

definition includes_ci :: "string \<Rightarrow> string \<Rightarrow> bool" where
  "includes_ci s needle = str_includes (map to_lower s) (map to_lower needle)"

text \<open>The decimal digits of a number, as a template literal renders it.\<close>

definition digit :: "nat \<Rightarrow> char" where
  "digit d = char_of (48 + d)"

function show_nat :: "nat \<Rightarrow> string" where
  "show_nat n = (if n < 10 then [digit n] else show_nat (n div 10) @ [digit (n mod 10)])"
  by pat_completeness auto
termination
  by (relation "measure (\<lambda>n. n)") auto

subsection \<open>Configuration and the S3 upload, lines 18 to 123\<close>

text \<open>
  The part of the validated environment that the handler reads. The schema admits the
  two literals \<open>"true"\<close> and \<open>"false"\<close> for \<open>S3_UPLOAD_ENABLED\<close>, and the S3 client
  exists exactly when it is \<open>"true"\<close> (lines 58 to 69).
\<close>

record env =
  S3_UPLOAD_ENABLED :: string
  S3_BUCKET_NAME :: string
  S3_PUBLIC_ENDPOINT :: string
  S3_KEY_PREFIX :: string

definition s3Client :: "env \<Rightarrow> bool" where
  "s3Client e = (S3_UPLOAD_ENABLED e = ''true'')"

record fetch_response =
  ok :: bool
  status :: nat
  content_type_header :: "string option"
  arrayBuffer :: "thrown + nat list"

record upload_params =
  Bucket :: string
  Key :: string
  Body :: "nat list"
  ContentType :: string
  ACL :: string

text \<open>
  What the upload meets: the clock, the random suffix
  \<open>Math.random().toString(36).substring(2, 10)\<close>, the download and the S3 client.
\<close>

record storage_world =
  date_now :: nat
  randomString :: string
  fetch :: "string \<Rightarrow> thrown + fetch_response"
  s3_send :: "upload_params \<Rightarrow> thrown option"

definition file_extension :: "string \<Rightarrow> string" where
  "file_extension contentType =
     (if str_includes contentType ''jpeg'' \<or> str_includes contentType ''jpg'' then ''.jpg''
      else if str_includes contentType ''webp'' then ''.webp''
      else if str_includes contentType ''gif'' then ''.gif''
      else ''.png'')"

definition uploadToS3 :: "env \<Rightarrow> storage_world \<Rightarrow> string \<Rightarrow> thrown + string" where
  "uploadToS3 e sw imageUrl =
     (if \<not> s3Client e \<or> S3_UPLOAD_ENABLED e \<noteq> ''true''
      then Inl (Error ''S3 client or configuration not available'')
      else
        (case fetch sw imageUrl of
           Inl err \<Rightarrow> Inl err
         | Inr response \<Rightarrow>
             if \<not> ok response
             then Inl (Error (''Failed to download image: '' @ show_nat (status response)))
             else
               let contentType =
                     (case content_type_header response of
                        None \<Rightarrow> ''image/png''
                      | Some h \<Rightarrow> if h = [] then ''image/png'' else h);
                   file_name = S3_KEY_PREFIX e @ show_nat (date_now sw) @ ''-''
                     @ randomString sw @ file_extension contentType
               in
                 (case arrayBuffer response of
                    Inl err \<Rightarrow> Inl err
                  | Inr imageBuffer \<Rightarrow>
                      (case s3_send sw
                              \<lparr>Bucket = S3_BUCKET_NAME e, Key = file_name,
                               Body = imageBuffer, ContentType = contentType,
                               ACL = ''public-read''\<rparr> of
                         Some err \<Rightarrow> Inl err
                       | None \<Rightarrow> Inr (S3_PUBLIC_ENDPOINT e @ ''/'' @ file_name)))))"

text \<open>
  Lines 304 to 318. The condition \<open>env.S3_UPLOAD_ENABLED && s3Client\<close> tests a string for
  being non-empty and the client for being set.
\<close>

definition rehost :: "env \<Rightarrow> storage_world \<Rightarrow> string \<Rightarrow> string" where
  "rehost e sw comfyImageUrl =
     (if S3_UPLOAD_ENABLED e \<noteq> [] \<and> s3Client e then
        (case uploadToS3 e sw comfyImageUrl of
           Inr finalImageUrl \<Rightarrow> finalImageUrl
         | Inl s3Error \<Rightarrow> comfyImageUrl)
      else comfyImageUrl)"

subsection \<open>The tool handler, lines 174 to 336\<close>

record content_item =
  item_type :: string
  item_text :: string

text \<open>The field \<open>isError\<close> is optional: \<open>None\<close> is a result without it.\<close>

record tool_result =
  content :: "content_item list"
  isError :: "bool option"

definition success_result :: "string \<Rightarrow> tool_result" where
  "success_result url = \<lparr>content = [\<lparr>item_type = ''text'', item_text = url\<rparr>], isError = None\<rparr>"

definition error_result :: "thrown \<Rightarrow> tool_result" where
  "error_result e =
     \<lparr>content = [\<lparr>item_type = ''text'',
                  item_text = ''Error generating image: '' @ error_message e\<rparr>],
      isError = Some True\<rparr>"

record request =
  prompt :: string
  meta_progressToken :: "progress_token option"

record job_spec =
  positive_prompt :: string
  seed :: int

text \<open>
  Everything outside the handler that one invocation meets: how \<open>api.init()\<close> ends, the
  number \<open>Math.random()\<close> returns, how the send before the start ends if it is made,
  the events of the job that are handled to their end, in their order, then possibly
  one more event at which \<open>sendNotification\<close>, if the callback calls it, rejects with
  the given error, the engine client's URL rule, and the storage side.
\<close>

record world =
  init_outcome :: "thrown option"
  random_draw :: real
  first_send :: "thrown option"
  events :: "remote_event list"
  rejecting_callback :: "(remote_event \<times> thrown) option"
  getPathImage :: "image_info \<Rightarrow> thrown + string"
  storage :: storage_world

text \<open>
  What one invocation does: how the call of the handler ends, the sends it made, the
  interrupt requests it issued, the job it prepared, and the unhandled rejection that
  ended the process, if there was one.
\<close>

record invocation =
  outcome :: "tool_result completion"
  notifications :: "notification list"
  interrupt_requests :: nat
  prepared :: "job_spec option"
  unhandled_rejection :: "thrown option"

text \<open>Line 207: \<open>Math.floor(Math.random() * 1_000_000)\<close>.\<close>

definition new_seed :: "real \<Rightarrow> int" where
  "new_seed r = \<lfloor>r * 1000000\<rfloor>"

text \<open>
  The body of the \<open>try\<close> block, lines 180 to 323. While the handler awaits the promise,
  the events are delivered. If the process ends on a callback's unhandled rejection
  while the promise is still pending, the call of the handler ends with the process.
\<close>

definition handler_try :: "env \<Rightarrow> request \<Rightarrow> world \<Rightarrow> invocation" where
  "handler_try e req w =
     (case init_outcome w of
        Some err \<Rightarrow>
          \<lparr>outcome = Throws err, notifications = [], interrupt_requests = 0,
           prepared = None, unhandled_rejection = None\<rparr>
      | None \<Rightarrow>
          let job = \<lparr>positive_prompt = prompt req, seed = new_seed (random_draw w)\<rparr> in
          (case send_progress (meta_progressToken req) (Num 0) (first_send w) initial_state of
             (Some err, s) \<Rightarrow>
               \<lparr>outcome = Throws err, notifications = sent s,
                interrupt_requests = interrupts s, prepared = Some job,
                unhandled_rejection = None\<rparr>
           | (None, s) \<Rightarrow>
               let s1 = run (getPathImage w) (meta_progressToken req) s (events w);
                   last =
                     (case rejecting_callback w of
                        None \<Rightarrow> (None, s1)
                      | Some (ev, err) \<Rightarrow>
                          deliver (getPathImage w) (meta_progressToken req) (Some err) s1 ev)
               in
               \<lparr>outcome =
                  (case promise (snd last) of
                     Pending \<Rightarrow>
                       (case fst last of None \<Rightarrow> Never | Some err \<Rightarrow> ProcessExits err)
                   | Rejected err \<Rightarrow> Throws err
                   | Fulfilled comfyImageUrl \<Rightarrow>
                       Returns (success_result (rehost e (storage w) comfyImageUrl))),
                notifications = sent (snd last), interrupt_requests = interrupts (snd last),
                prepared = Some job, unhandled_rejection = fst last\<rparr>))"

text \<open>The handler: the \<open>try\<close> block with its \<open>catch\<close>, lines 324 to 335.\<close>

definition handler :: "env \<Rightarrow> request \<Rightarrow> world \<Rightarrow> invocation" where
  "handler e req w =
     (let r = handler_try e req w in
      case outcome r of
        Throws err \<Rightarrow> r\<lparr>outcome := Returns (error_result err)\<rparr>
      | _ \<Rightarrow> r)"

text \<open>A result has one text item, and either no \<open>isError\<close> field or \<open>isError: true\<close>.\<close>

definition is_success :: "tool_result \<Rightarrow> bool" where
  "is_success r =
     (isError r = None \<and>
      (case content r of [c] \<Rightarrow> item_type c = ''text'' | _ \<Rightarrow> False))"


definition result_text :: "tool_result \<Rightarrow> string" where
  "result_text r = concat (map item_text (content r))"

subsection \<open>The session registry and the two routes, lines 16 and 339 to 356\<close>

text \<open>
  \<open>transports\<close> is an object literal used as a dictionary. Its own properties are the
  registered sessions; reading a property that is not its own goes on to
  \<open>Object.prototype\<close>, whose properties are all functions or objects, hence truthy.
\<close>

type_synonym 'tr registry = "string \<rightharpoonup> 'tr"

definition object_prototype_properties :: "string list" where
  "object_prototype_properties =
     [''constructor'', ''__defineGetter__'', ''__defineSetter__'', ''hasOwnProperty'',
      ''__lookupGetter__'', ''__lookupSetter__'', ''isPrototypeOf'',
      ''propertyIsEnumerable'', ''toString'', ''valueOf'', ''__proto__'',
      ''toLocaleString'']"

datatype 'tr property = Own 'tr | Inherited | Undefined

text \<open>\<open>transports[sessionId]\<close>\<close>

definition get_property :: "'tr registry \<Rightarrow> string \<Rightarrow> 'tr property" where
  "get_property transports sessionId =
     (case transports sessionId of
        Some transport \<Rightarrow> Own transport
      | None \<Rightarrow>
          if sessionId \<in> set object_prototype_properties then Inherited else Undefined)"

text \<open>
  How the route \<open>POST /messages\<close> ends: the call is handed to the transport of the
  session, or the response has status 400, or the route handler throws.
\<close>

datatype 'tr post_outcome =
    HandlePostMessage 'tr
  | Status400 string
  | RouteThrows thrown

definition post_messages :: "'tr registry \<Rightarrow> string \<Rightarrow> 'tr post_outcome" where
  "post_messages transports sessionId =
     (case get_property transports sessionId of
        Own transport \<Rightarrow> HandlePostMessage transport
      | Inherited \<Rightarrow> RouteThrows (Error ''transport.handlePostMessage is not a function'')
      | Undefined \<Rightarrow> Status400 ''No transport found for sessionId'')"

text \<open>
  \<open>GET /sse\<close> stores the new transport under its session identifier, a UUID that the
  transport generates; the \<open>close\<close> event of the response deletes the entry.
\<close>

definition sse_open :: "'tr registry \<Rightarrow> string \<Rightarrow> 'tr \<Rightarrow> 'tr registry" where
  "sse_open transports sessionId transport = transports(sessionId \<mapsto> transport)"

definition sse_close :: "'tr registry \<Rightarrow> string \<Rightarrow> 'tr registry" where
  "sse_close transports sessionId = transports(sessionId := None)"

subsection \<open>Notions the properties are stated with\<close>

text \<open>
  The state of the awaited promise once the events of the world that are handled to
  their end have been delivered. It does not depend on the progress token: no send
  touches the promise.
\<close>

definition awaited :: "world \<Rightarrow> promise_state" where
  "awaited w = promise (run (getPathImage w) None initial_state (events w))"

text \<open>
  All events of the world, the one with the rejecting send included, and the state of
  the promise after them.
\<close>

definition all_events :: "world \<Rightarrow> remote_event list" where
  "all_events w =
     events w @ (case rejecting_callback w of None \<Rightarrow> [] | Some (ev, err) \<Rightarrow> [ev])"

definition final_promise :: "world \<Rightarrow> promise_state" where
  "final_promise w = promise (run (getPathImage w) None initial_state (all_events w))"

text \<open>
  The output of a finished job has no usable image: the slot is absent, or it has no
  \<open>images\<close> list, or the list is empty.
\<close>

definition output_missing :: "job_output \<Rightarrow> bool" where
  "output_missing data =
     (case generated_image data of
        None \<Rightarrow> True
      | Some outputData \<Rightarrow>
          (case images outputData of None \<Rightarrow> True | Some imgs \<Rightarrow> imgs = []))"

text \<open>The send before the start, if the handler makes it, does not throw.\<close>

definition first_send_ok :: "request \<Rightarrow> world \<Rightarrow> bool" where
  "first_send_ok req w = (\<not> (truthy (meta_progressToken req) \<and> first_send w \<noteq> None))"

text \<open>
  The events at which the handler reads \<open>signal.aborted\<close>: the callbacks \<open>onPending\<close>
  and \<open>onProgress\<close>.
\<close>

fun poll_point :: "remote_event \<Rightarrow> bool" where
  "poll_point (Callback OnPending m) = True"
| "poll_point (Callback (OnProgress info promptId) m) = True"
| "poll_point _ = False"

text \<open>The cancellation signal is set while the event is handled.\<close>

fun signal_set :: "remote_event \<Rightarrow> bool" where
  "signal_set (Callback cb m) = aborted m"

text \<open>The signal is observed set: at a poll point, with the signal set.\<close>

definition observed_set :: "remote_event \<Rightarrow> bool" where
  "observed_set ev = (poll_point ev \<and> signal_set ev)"

text \<open>
  The call is not ended by a callback's rejected send: the process lives on after the
  last event.
\<close>

definition callback_sends_ok :: "env \<Rightarrow> request \<Rightarrow> world \<Rightarrow> bool" where
  "callback_sends_ok e req w = (unhandled_rejection (handler e req w) = None)"

text \<open>A number is a fraction between 0 and 1.\<close>

fun in_unit_interval :: "js_number \<Rightarrow> bool" where
  "in_unit_interval (Num x) = (0 \<le> x \<and> x \<le> 1)"
| "in_unit_interval _ = False"

subsection \<open>Concrete inputs\<close>

definition quiet :: moment where
  "quiet = \<lparr>aborted = False\<rparr>"

definition cancelled :: moment where
  "cancelled = \<lparr>aborted = True\<rparr>"

definition example_image :: image_info where
  "example_image = \<lparr>filename = ''selfie.png'', subfolder = [], image_type = ''output''\<rparr>"

definition example_getPathImage :: "image_info \<Rightarrow> thrown + string" where
  "example_getPathImage i = Inr (''http://comfy.local/view?filename='' @ filename i)"

definition one_image :: job_output where
  "one_image = \<lparr>generated_image = Some \<lparr>images = Some [example_image]\<rparr>\<rparr>"

definition no_images :: job_output where
  "no_images = \<lparr>generated_image = Some \<lparr>images = Some []\<rparr>\<rparr>"

definition example_request :: request where
  "example_request =
     \<lparr>prompt = ''smiling, outdoors'', meta_progressToken = Some (StrToken ''p1'')\<rparr>"

definition s3_env :: env where
  "s3_env =
     \<lparr>S3_UPLOAD_ENABLED = ''true'', S3_BUCKET_NAME = ''bucket'',
      S3_PUBLIC_ENDPOINT = ''https://cdn.local'', S3_KEY_PREFIX = ''selfie/''\<rparr>"

definition unreachable_storage :: storage_world where
  "unreachable_storage =
     \<lparr>date_now = 1700000000000, randomString = ''k3x9q2ab'',
      fetch = (\<lambda>url. Inl (Error ''fetch failed'')),
      s3_send = (\<lambda>params. None)\<rparr>"

definition example_world :: "remote_event list \<Rightarrow> world" where
  "example_world evs =
     \<lparr>init_outcome = None, random_draw = 1 / 2, first_send = None, events = evs,
      rejecting_callback = None, getPathImage = example_getPathImage,
      storage = unreachable_storage\<rparr>"

text \<open>
  The client has gone: the job was started, and at the next \<open>onPending\<close> the signal is
  set and \<open>sendNotification\<close> rejects.
\<close>

definition disconnected_world :: world where
  "disconnected_world =
     (example_world [Callback OnStart quiet])
       \<lparr>rejecting_callback := Some (Callback OnPending cancelled, Error ''Not connected'')\<rparr>"

section \<open>Properties\<close>

subsection \<open>The promise and the run of events\<close>

lemma settled_resolve: "settled p \<Longrightarrow> resolve v p = p"
  by (cases p) (simp_all add: settled_def resolve_def)

lemma settled_reject: "settled p \<Longrightarrow> reject e p = p"
  by (cases p) (simp_all add: settled_def reject_def)

lemma pending_resolve: "resolve v Pending = Fulfilled v"
  by (simp add: resolve_def)

lemma pending_reject: "reject e Pending = Rejected e"
  by (simp add: reject_def)

lemma promise_send_progress: "promise (snd (send_progress tok v out s)) = promise s"
  by (simp add: send_progress_def split: option.splits)

lemma promise_send_then_poll: "promise (snd (send_then_poll tok v out m s)) = promise s"
  by (cases tok; cases out)
     (simp_all add: send_then_poll_def send_progress_def poll_signal_def)

lemma promise_deliver_nonterminal:
  "\<not> terminal ev \<Longrightarrow> promise (snd (deliver gp tok out s ev)) = promise s"
  by (cases "(gp, tok, out, s, ev)" rule: deliver.cases)
     (simp_all add: onStart_def promise_send_progress promise_send_then_poll onPending_def
        onProgress_def)

lemma promise_onFinished_settled: "settled (promise s) \<Longrightarrow> promise (onFinished gp d s) = promise s"
  by (simp add: onFinished_def settled_resolve settled_reject split: option.splits list.splits sum.splits)

lemma promise_deliver_settled:
  "settled (promise s) \<Longrightarrow> promise (snd (deliver gp tok out s ev)) = promise s"
  by (cases "(gp, tok, out, s, ev)" rule: deliver.cases)
     (simp_all add: promise_onFinished_settled onFailed_def settled_reject onStart_def
        promise_send_progress promise_send_then_poll onPending_def onProgress_def)

lemma promise_deliver_cong:
  "promise s = promise s' \<Longrightarrow>
   promise (snd (deliver gp tok out s ev)) = promise (snd (deliver gp tok' out' s' ev))"
  by (cases "(gp, tok, out, s, ev)" rule: deliver.cases)
     (simp_all add: onFinished_def onFailed_def onStart_def promise_send_progress
        promise_send_then_poll onPending_def onProgress_def
        split: option.splits list.splits sum.splits)

lemma deliver_terminal_settles:
  "terminal ev \<Longrightarrow> promise s = Pending \<Longrightarrow> settled (promise (snd (deliver gp tok out s ev)))"
  by (cases "(gp, tok, out, s, ev)" rule: deliver.cases)
     (simp_all add: onFinished_def onFailed_def settled_def pending_resolve pending_reject
        split: option.splits list.splits sum.splits)

lemma fst_send_progress_returns: "fst (send_progress tok v None s) = None"
  by (simp add: send_progress_def split: option.splits)

lemma fst_send_progress_falsy: "\<not> truthy tok \<Longrightarrow> fst (send_progress tok v out s) = None"
  by (simp add: send_progress_def)

lemma fst_deliver_falsy: "\<not> truthy tok \<Longrightarrow> fst (deliver gp tok out s ev) = None"
  by (cases "(gp, tok, out, s, ev)" rule: deliver.cases)
     (simp_all add: onStart_def onPending_def onProgress_def send_then_poll_def send_progress_def)

lemma promise_step_nonterminal: "\<not> terminal ev \<Longrightarrow> promise (step gp tok s ev) = promise s"
  by (simp add: step_def promise_deliver_nonterminal)

lemma promise_step_settled: "settled (promise s) \<Longrightarrow> promise (step gp tok s ev) = promise s"
  by (simp add: step_def promise_deliver_settled)

lemma step_terminal_settles: "terminal ev \<Longrightarrow> promise s = Pending \<Longrightarrow> settled (promise (step gp tok s ev))"
  by (simp add: step_def deliver_terminal_settles)

lemma promise_step_cong: "promise s = promise s' \<Longrightarrow> promise (step gp tok s ev) = promise (step gp tok' s' ev)"
  unfolding step_def by (rule promise_deliver_cong)

lemma run_Nil: "run gp tok s [] = s"
  by (simp add: run_def)

lemma run_Cons: "run gp tok s (ev # evs) = run gp tok (step gp tok s ev) evs"
  by (simp add: run_def)

lemma run_append: "run gp tok s (xs @ ys) = run gp tok (run gp tok s xs) ys"
  by (simp add: run_def)

lemma promise_run_settled: "settled (promise s) \<Longrightarrow> promise (run gp tok s evs) = promise s"
  by (induction evs arbitrary: s) (simp_all add: run_Nil run_Cons promise_step_settled)

lemma promise_run_nonterminal: "\<forall>ev\<in>set evs. \<not> terminal ev \<Longrightarrow> promise (run gp tok s evs) = promise s"
  by (induction evs arbitrary: s) (simp_all add: run_Nil run_Cons promise_step_nonterminal)

lemma promise_run_cong: "promise s = promise s' \<Longrightarrow> promise (run gp tok s evs) = promise (run gp tok' s' evs)"
proof (induction evs arbitrary: s s')
  case Nil then show ?case by (simp add: run_Nil)
next
  case (Cons ev evs)
  have "promise (step gp tok s ev) = promise (step gp tok' s' ev)"
    using Cons.prems by (rule promise_step_cong)
  then show ?case by (simp add: run_Cons Cons.IH)
qed

lemma settlements_settled: "settled (promise s) \<Longrightarrow> settlements gp tok s evs = 0"
  by (induction evs arbitrary: s) (simp_all add: promise_step_settled)

lemma settlements_nonterminal: "\<forall>ev\<in>set evs. \<not> terminal ev \<Longrightarrow> settlements gp tok s evs = 0"
  by (induction evs arbitrary: s) (simp_all add: promise_step_nonterminal)

lemma settlements_append: "settlements gp tok s (xs @ ys) = settlements gp tok s xs + settlements gp tok (run gp tok s xs) ys"
  by (induction xs arbitrary: s) (simp_all add: run_Nil run_Cons)

lemma settlements_le_1: "settlements gp tok s evs \<le> 1"
proof (induction evs arbitrary: s)
  case Nil then show ?case by simp
next
  case (Cons ev evs)
  show ?case
  proof (cases "promise (step gp tok s ev) = promise s")
    case True then show ?thesis using Cons.IH[of "step gp tok s ev"] by simp
  next
    case False
    then have "\<not> settled (promise s)" using promise_step_settled by blast
    then have p: "promise s = Pending" by (simp add: settled_def)
    have "terminal ev" using False promise_step_nonterminal by blast
    then have "settled (promise (step gp tok s ev))" using p by (rule step_terminal_settles)
    then have "settlements gp tok (step gp tok s ev) evs = 0" by (rule settlements_settled)
    then show ?thesis using False by simp
  qed
qed

subsection \<open>The awaited result settles once, by the first terminal callback\<close>

text \<open>
  Claim C1. Take any sequence of events delivered to one job in which a terminal
  callback (\<open>onFinished\<close> or \<open>onFailed\<close>) occurs, and let \<open>t\<close> be the first one, after the
  events \<open>pre\<close> and before the events \<open>post\<close>. Then the awaited promise settles
  exactly once over the whole sequence, and it does so at \<open>t\<close>: the settled value is the
  one \<open>t\<close> gives to a pending promise, and no event of \<open>post\<close>, terminal or not, changes
  it. Over any sequence at all the promise settles at most once.
\<close>

theorem first_terminal_callback_settles:
  assumes "promise s = Pending" and "\<forall>ev\<in>set pre. \<not> terminal ev" and "terminal t"
  shows "settlements gp tok s (pre @ t # post) = 1 \<and>
         settled (promise (run gp tok s (pre @ t # post))) \<and>
         promise (run gp tok s (pre @ t # post)) = promise (step gp tok s t) \<and>
         promise (run gp tok s (pre @ t # post)) = promise (run gp tok s (pre @ [t])) \<and>
         settlements gp tok s (pre @ [t]) = 1 \<and>
         settlements gp tok (run gp tok s (pre @ [t])) post = 0 \<and>
         settlements gp tok s' evs \<le> 1"
proof -
  let ?s1 = "run gp tok s pre"
  let ?s2 = "step gp tok ?s1 t"
  have p1: "promise ?s1 = Pending"
    using assms(1,2) by (simp add: promise_run_nonterminal)
  have st: "settled (promise ?s2)"
    using assms(3) p1 by (rule step_terminal_settles)
  have changed: "promise ?s2 \<noteq> promise ?s1"
    using st p1 by (simp add: settled_def)
  have same: "promise ?s2 = promise (step gp tok s t)"
    by (rule promise_step_cong) (simp add: p1 assms(1))
  have r1: "run gp tok s (pre @ [t]) = ?s2"
    by (simp add: run_append run_Cons run_Nil)
  have r2: "run gp tok s (pre @ t # post) = run gp tok ?s2 post"
    by (simp add: run_append run_Cons)
  have fin: "promise (run gp tok ?s2 post) = promise ?s2"
    using st by (rule promise_run_settled)
  have c0: "settlements gp tok s pre = 0"
    using assms(2) by (rule settlements_nonterminal)
  have c2: "settlements gp tok ?s2 post = 0"
    using st by (rule settlements_settled)
  have c1: "settlements gp tok s (pre @ [t]) = 1"
    using c0 changed by (simp add: settlements_append)
  have c: "settlements gp tok s (pre @ t # post) = 1"
    using c0 c2 changed by (simp add: settlements_append)
  show ?thesis
    using c c1 c2 st fin same r1 r2 settlements_le_1 [of gp tok s' evs] by simp
qed

theorem first_terminal_callback_settles_witness:
  "promise initial_state = Pending \<and>
   \<not> terminal (Callback OnStart quiet) \<and> \<not> terminal (Callback OnPending quiet) \<and>
   terminal (Callback (OnFinished one_image) quiet) \<and>
   settlements example_getPathImage None initial_state
     ([Callback OnStart quiet, Callback OnPending quiet] @ Callback (OnFinished one_image) quiet
       # [Callback (OnFailed (Error ''late'') ''7'') quiet]) = 1 \<and>
   promise (run example_getPathImage None initial_state
     ([Callback OnStart quiet, Callback OnPending quiet] @ Callback (OnFinished one_image) quiet
       # [Callback (OnFailed (Error ''late'') ''7'') quiet]))
     = Fulfilled ''http://comfy.local/view?filename=selfie.png''"
proof -
  have h1: "promise initial_state = Pending" by (simp add: initial_state_def)
  have h2: "\<forall>ev\<in>set [Callback OnStart quiet, Callback OnPending quiet]. \<not> terminal ev" by simp
  have h3: "terminal (Callback (OnFinished one_image) quiet)" by simp
  have v: "promise (step example_getPathImage None initial_state (Callback (OnFinished one_image) quiet))
        = Fulfilled ''http://comfy.local/view?filename=selfie.png''"
    by (simp add: step_def onFinished_def one_image_def initial_state_def
        example_getPathImage_def example_image_def resolve_def)
  show ?thesis
    using first_terminal_callback_settles [OF h1 h2 h3, of example_getPathImage None
        "[Callback (OnFailed (Error ''late'') ''7'') quiet]"] h1 h2 h3 v
    by simp
qed


subsection \<open>The handler and the awaited promise\<close>

lemma promise_run_first_terminal:
  assumes "promise s = Pending" and "\<forall>ev\<in>set pre. \<not> terminal ev" and "terminal t"
  shows "promise (run gp tok s (pre @ t # post)) = promise (step gp tok initial_state t)"
    and "settled (promise (run gp tok s (pre @ t # post)))"
proof -
  let ?s1 = "run gp tok s pre"
  have p1: "promise ?s1 = Pending"
    using assms(1,2) by (simp add: promise_run_nonterminal)
  have st: "settled (promise (step gp tok ?s1 t))"
    using assms(3) p1 by (rule step_terminal_settles)
  have same: "promise (step gp tok ?s1 t) = promise (step gp tok initial_state t)"
    by (rule promise_step_cong) (simp add: p1 initial_state_def)
  have "promise (run gp tok s (pre @ t # post)) = promise (step gp tok ?s1 t)"
    using st by (simp add: run_append run_Cons promise_run_settled)
  then show "promise (run gp tok s (pre @ t # post)) = promise (step gp tok initial_state t)"
    and "settled (promise (run gp tok s (pre @ t # post)))"
    using same st by simp_all
qed


lemma send_progress_falsy: "\<not> truthy tok \<Longrightarrow> send_progress tok v out s = (None, s)"
  by (simp add: send_progress_def)

lemma send_progress_truthy:
  "truthy tok \<Longrightarrow> \<exists>t. tok = Some t \<and> send_progress tok v out s =
     (out, s\<lparr>sent := sent s @ [\<lparr>method_name = ''notifications/progress'', progressToken = t, progress = v\<rparr>]\<rparr>)"
  by (cases tok) (simp_all add: send_progress_def)

lemma first_send_returns:
  assumes "first_send_ok req w"
  obtains s where "send_progress (meta_progressToken req) (Num 0) (first_send w) initial_state = (None, s)"
    and "promise s = Pending" and "interrupts s = 0"
proof (cases "truthy (meta_progressToken req)")
  case True
  then have "first_send w = None" using assms by (simp add: first_send_ok_def)
  then show ?thesis
    using send_progress_truthy [OF True, of "Num 0" None initial_state] that
    by (auto simp: initial_state_def)
next
  case False
  then show ?thesis
    using send_progress_falsy [OF False, of "Num 0" "first_send w" initial_state] that
    by (simp add: initial_state_def)
qed

lemma handler_fields:
  "notifications (handler e req w) = notifications (handler_try e req w)"
  "interrupt_requests (handler e req w) = interrupt_requests (handler_try e req w)"
  "prepared (handler e req w) = prepared (handler_try e req w)"
  "unhandled_rejection (handler e req w) = unhandled_rejection (handler_try e req w)"
  by (simp_all add: handler_def Let_def split: completion.splits)

lemma handler_outcome_of_try:
  "outcome (handler e req w) =
     (case outcome (handler_try e req w) of
        Throws err \<Rightarrow> Returns (error_result err)
      | c \<Rightarrow> c)"
  by (simp add: handler_def Let_def split: completion.splits)

lemma handler_init_fails:
  "init_outcome w = Some err \<Longrightarrow> outcome (handler e req w) = Returns (error_result err)"
  by (simp add: handler_def handler_try_def)


text \<open>
  A call that has started the job: its state after the events and the last delivery
  decides every field of the invocation.
\<close>

lemma handler_try_started:
  assumes "init_outcome w = None" and "first_send_ok req w"
  shows "\<exists>s last.
     promise s = Pending \<and> interrupts s = 0 \<and>
     send_progress (meta_progressToken req) (Num 0) (first_send w) initial_state = (None, s) \<and>
     last = (case rejecting_callback w of
               None \<Rightarrow> (None, run (getPathImage w) (meta_progressToken req) s (events w))
             | Some (ev, err) \<Rightarrow>
                 deliver (getPathImage w) (meta_progressToken req) (Some err)
                   (run (getPathImage w) (meta_progressToken req) s (events w)) ev) \<and>
     outcome (handler_try e req w) =
       (case promise (snd last) of
          Pending \<Rightarrow> (case fst last of None \<Rightarrow> Never | Some err \<Rightarrow> ProcessExits err)
        | Rejected err \<Rightarrow> Throws err
        | Fulfilled url \<Rightarrow> Returns (success_result (rehost e (storage w) url))) \<and>
     notifications (handler_try e req w) = sent (snd last) \<and>
     interrupt_requests (handler_try e req w) = interrupts (snd last) \<and>
     unhandled_rejection (handler_try e req w) = fst last"
proof -
  obtain s where s: "send_progress (meta_progressToken req) (Num 0) (first_send w) initial_state = (None, s)"
    and p: "promise s = Pending" and i: "interrupts s = 0"
    using first_send_returns [OF assms(2)] by blast
  show ?thesis
    using assms(1) s p i by (simp add: handler_try_def Let_def)
qed

lemma promise_last_delivery:
  assumes "promise s = Pending"
  shows "promise (snd (case rejecting_callback w of
               None \<Rightarrow> (None, run (getPathImage w) tok s (events w))
             | Some (ev, err) \<Rightarrow>
                 deliver (getPathImage w) tok (Some err)
                   (run (getPathImage w) tok s (events w)) ev)) = final_promise w"
proof (cases "rejecting_callback w")
  case None
  have "promise (run (getPathImage w) tok s (events w))
      = promise (run (getPathImage w) None initial_state (events w))"
    by (rule promise_run_cong) (simp add: assms initial_state_def)
  then show ?thesis using None by (simp add: final_promise_def all_events_def)
next
  case (Some p)
  obtain ev err where p: "p = (ev, err)" by (cases p)
  have r: "promise (run (getPathImage w) tok s (events w))
      = promise (run (getPathImage w) None initial_state (events w))"
    by (rule promise_run_cong) (simp add: assms initial_state_def)
  have "promise (snd (deliver (getPathImage w) tok (Some err)
            (run (getPathImage w) tok s (events w)) ev))
      = promise (step (getPathImage w) None (run (getPathImage w) None initial_state (events w)) ev)"
    unfolding step_def using r by (rule promise_deliver_cong)
  then show ?thesis
    using Some p by (simp add: final_promise_def all_events_def run_append run_Cons run_Nil)
qed

lemma handler_outcome:
  assumes "init_outcome w = None" and "first_send_ok req w"
  shows "outcome (handler e req w) =
     (case final_promise w of
        Pending \<Rightarrow>
          (case unhandled_rejection (handler e req w) of
             None \<Rightarrow> Never
           | Some err \<Rightarrow> ProcessExits err)
      | Rejected err \<Rightarrow> Returns (error_result err)
      | Fulfilled url \<Rightarrow> Returns (success_result (rehost e (storage w) url)))"
proof -
  obtain s last where p: "promise s = Pending"
    and l: "last = (case rejecting_callback w of
               None \<Rightarrow> (None, run (getPathImage w) (meta_progressToken req) s (events w))
             | Some (ev, err) \<Rightarrow>
                 deliver (getPathImage w) (meta_progressToken req) (Some err)
                   (run (getPathImage w) (meta_progressToken req) s (events w)) ev)"
    and o: "outcome (handler_try e req w) =
       (case promise (snd last) of
          Pending \<Rightarrow> (case fst last of None \<Rightarrow> Never | Some err \<Rightarrow> ProcessExits err)
        | Rejected err \<Rightarrow> Throws err
        | Fulfilled url \<Rightarrow> Returns (success_result (rehost e (storage w) url)))"
    and u: "unhandled_rejection (handler_try e req w) = fst last"
    using handler_try_started [OF assms, of e] by blast
  have f: "promise (snd last) = final_promise w"
    unfolding l using p by (rule promise_last_delivery)
  show ?thesis
    using o u f
    by (simp add: handler_outcome_of_try handler_fields
        split: promise_state.splits option.splits)
qed

lemma final_promise_settled: "awaited w \<noteq> Pending \<Longrightarrow> final_promise w = awaited w"
  by (simp add: final_promise_def all_events_def awaited_def run_append promise_run_settled settled_def)


lemma handler_no_rejecting:
  assumes "init_outcome w = None" and "first_send_ok req w" and "rejecting_callback w = None"
  shows "unhandled_rejection (handler e req w) = None"
  using handler_try_started [OF assms(1,2), of e] assms(3) by (auto simp: handler_fields)

lemma handler_awaits:
  assumes "init_outcome w = None" and "first_send_ok req w" and "awaited w \<noteq> Pending"
  shows "outcome (handler e req w) =
     (case awaited w of
        Pending \<Rightarrow> Never
      | Rejected err \<Rightarrow> Returns (error_result err)
      | Fulfilled url \<Rightarrow> Returns (success_result (rehost e (storage w) url)))"
  using handler_outcome [OF assms(1,2), of e] final_promise_settled [OF assms(3)] assms(3)
  by (simp split: promise_state.splits)





lemma is_success_success_result: "is_success (success_result url)"
  by (simp add: is_success_def success_result_def)


lemma not_found_text: "includes_ci (result_text (error_result (Error not_found_message))) ''not found''"
  by (simp add: includes_ci_def result_text_def error_result_def error_message_def
      not_found_message_def to_lower_def)

lemma onFinished_missing:
  "output_missing data \<Longrightarrow>
   promise (step gp tok initial_state (Callback (OnFinished data) m)) = Rejected (Error not_found_message)"
  by (simp add: step_def output_missing_def onFinished_def initial_state_def reject_def
      split: option.splits list.splits)

lemma onFinished_first_image:
  "generated_image data = Some out \<Longrightarrow> images out = Some (img # imgs) \<Longrightarrow> gp img = Inr url \<Longrightarrow>
   promise (step gp tok initial_state (Callback (OnFinished data) m)) = Fulfilled url"
  by (simp add: step_def onFinished_def initial_state_def resolve_def)

lemma awaited_first_terminal:
  assumes "events w = pre @ t # post" and "\<forall>ev\<in>set pre. \<not> terminal ev" and "terminal t"
  shows "awaited w = promise (step (getPathImage w) None initial_state t)"
proof -
  have "promise initial_state = Pending" by (simp add: initial_state_def)
  then show ?thesis
    unfolding awaited_def assms(1) using assms(2,3) by (rule promise_run_first_terminal(1))
qed

subsection \<open>A finished job without an image is an error\<close>

text \<open>
  Claim C2. Let \<open>onFinished\<close> be the first terminal callback of a job that was started
  (\<open>api.init()\<close> and the send before the start did not throw), and let its output
  slot \<open>generated_image\<close> be absent, or lack an \<open>images\<close> list, or have an empty one.
  Then the awaited promise is rejected with an error whose message contains
  "not found" (ignoring case), and the tool result is the error result with that
  message and \<open>isError: true\<close>, never a success.
\<close>

theorem missing_output_is_error:
  assumes "output_missing data"
    and "init_outcome w = None" and "first_send_ok req w"
    and "events w = pre @ Callback (OnFinished data) m # post"
    and "\<forall>ev\<in>set pre. \<not> terminal ev"
  shows "awaited w = Rejected (Error not_found_message) \<and>
         includes_ci (error_message (Error not_found_message)) ''not found'' \<and>
         outcome (handler e req w) = Returns (error_result (Error not_found_message)) \<and>
         isError (error_result (Error not_found_message)) = Some True \<and>
         includes_ci (result_text (error_result (Error not_found_message))) ''not found''"
proof -
  have a: "awaited w = Rejected (Error not_found_message)"
    using awaited_first_terminal [OF assms(4,5)] onFinished_missing [OF assms(1)] by simp
  have h: "outcome (handler e req w) = Returns (error_result (Error not_found_message))"
    using handler_awaits [OF assms(2,3), of e] a by simp
  have t: "includes_ci (error_message (Error not_found_message)) ''not found''"
    by (simp add: includes_ci_def error_message_def not_found_message_def to_lower_def)
  have i: "isError (error_result (Error not_found_message)) = Some True"
    by (simp add: error_result_def)
  show ?thesis using a h t i not_found_text by simp
qed

theorem missing_output_is_error_witness:
  "output_missing no_images \<and>
   init_outcome (example_world [Callback OnStart quiet, Callback (OnFinished no_images) quiet]) = None \<and>
   first_send_ok example_request
     (example_world [Callback OnStart quiet, Callback (OnFinished no_images) quiet]) \<and>
   \<not> terminal (Callback OnStart quiet) \<and>
   outcome (handler s3_env example_request
     (example_world [Callback OnStart quiet, Callback (OnFinished no_images) quiet]))
   = Returns \<lparr>content = [\<lparr>item_type = ''text'', item_text =
        ''Error generating image: Generated image data not found in ComfyUI response.''\<rparr>],
      isError = Some True\<rparr>"
proof -
  let ?w = "example_world [Callback OnStart quiet, Callback (OnFinished no_images) quiet]"
  have h1: "output_missing no_images" by (simp add: output_missing_def no_images_def)
  have h2: "init_outcome ?w = None" by (simp add: example_world_def)
  have h3: "first_send_ok example_request ?w" by (simp add: first_send_ok_def example_world_def)
  have h4: "events ?w = [Callback OnStart quiet] @ Callback (OnFinished no_images) quiet # []"
    by (simp add: example_world_def)
  have h5: "\<forall>ev\<in>set [Callback OnStart quiet]. \<not> terminal ev" by simp
  show ?thesis
    using missing_output_is_error [OF h1 h2 h3 h4 h5, of s3_env] h1 h2 h3 h5
    by (simp add: error_result_def error_message_def not_found_message_def)
qed


subsection \<open>The handler never throws\<close>




subsection \<open>A failed upload falls back to the engine's URL\<close>

text \<open>
  Claim C4. When uploading to S3 is enabled, the job succeeds with the URL the engine
  client builds for the first image, and \<open>uploadToS3\<close> throws (for whatever reason:
  the download, the response status, the body, or the S3 client), the tool result is
  the success result whose text is the engine's URL.
\<close>

theorem upload_failure_falls_back:
  assumes "S3_UPLOAD_ENABLED e = ''true''"
    and "init_outcome w = None" and "first_send_ok req w"
    and "events w = pre @ Callback (OnFinished data) m # post"
    and "\<forall>ev\<in>set pre. \<not> terminal ev"
    and "generated_image data = Some out" and "images out = Some (img # imgs)"
    and "getPathImage w img = Inr url"
    and "uploadToS3 e (storage w) url = Inl err"
  shows "outcome (handler e req w) = Returns (success_result url) \<and>
         is_success (success_result url) \<and> result_text (success_result url) = url"
proof -
  have a: "awaited w = Fulfilled url"
    using awaited_first_terminal [OF assms(4,5)] onFinished_first_image [OF assms(6,7), of "getPathImage w", OF assms(8)] by simp
  have r: "rehost e (storage w) url = url"
    using assms(1,9) by (simp add: rehost_def s3Client_def)
  have "outcome (handler e req w) = Returns (success_result url)"
    using handler_awaits [OF assms(2,3), of e] a r by simp
  then show ?thesis
    by (simp add: is_success_success_result) (simp add: result_text_def success_result_def)
qed

theorem upload_failure_falls_back_witness:
  "S3_UPLOAD_ENABLED s3_env = ''true'' \<and>
   uploadToS3 s3_env unreachable_storage ''http://comfy.local/view?filename=selfie.png''
     = Inl (Error ''fetch failed'') \<and>
   outcome (handler s3_env example_request (example_world [Callback (OnFinished one_image) quiet]))
     = Returns \<lparr>content = [\<lparr>item_type = ''text'',
          item_text = ''http://comfy.local/view?filename=selfie.png''\<rparr>], isError = None\<rparr>"
proof -
  let ?w = "example_world [Callback (OnFinished one_image) quiet]"
  let ?url = "''http://comfy.local/view?filename=selfie.png''"
  have h1: "S3_UPLOAD_ENABLED s3_env = ''true''" by (simp add: s3_env_def)
  have h2: "init_outcome ?w = None" by (simp add: example_world_def)
  have h3: "first_send_ok example_request ?w" by (simp add: first_send_ok_def example_world_def)
  have h4: "events ?w = [] @ Callback (OnFinished one_image) quiet # []"
    by (simp add: example_world_def)
  have h5: "\<forall>ev\<in>set []. \<not> terminal ev" by simp
  have h6: "generated_image one_image = Some \<lparr>images = Some [example_image]\<rparr>"
    by (simp add: one_image_def)
  have h7: "images \<lparr>images = Some [example_image]\<rparr> = Some (example_image # [])" by simp
  have h8: "getPathImage ?w example_image = Inr ?url"
    by (simp add: example_world_def example_getPathImage_def example_image_def)
  have h9: "uploadToS3 s3_env (storage ?w) ?url = Inl (Error ''fetch failed'')"
    by (simp add: uploadToS3_def s3Client_def s3_env_def example_world_def unreachable_storage_def)
  show ?thesis
    using upload_failure_falls_back [OF h1 h2 h3 h4 h5 h6 h7 h8 h9] h1 h9
    by (simp add: success_result_def example_world_def)
qed


subsection \<open>Cancellation is polled at \<open>onPending\<close> and \<open>onProgress\<close>\<close>

text \<open>
  Over events handled to their end, the handler reads the signal at \<open>onPending\<close> and
  \<open>onProgress\<close> and nowhere else: each event at which the signal is observed set adds
  one interrupt request and leaves the promise as it is, and no other event adds one.
\<close>

lemma interrupts_step:
  "interrupts (step gp tok s ev) = (if observed_set ev then Suc (interrupts s) else interrupts s)"
proof (cases "(gp, tok, None :: thrown option, s, ev)" rule: deliver.cases)
  case (1 gp tok outcome s data m)
  then show ?thesis
    by (simp add: step_def observed_set_def onFinished_def split: option.splits list.splits sum.splits)
next
  case (2 gp tok outcome s err promptId m)
  then show ?thesis by (simp add: step_def observed_set_def onFailed_def)
next
  case (3 gp tok outcome s m)
  then show ?thesis
    by (simp add: step_def observed_set_def onStart_def send_progress_def split: option.splits)
next
  case (4 gp tok outcome s m)
  then show ?thesis
    by (cases tok)
       (simp_all add: step_def observed_set_def onPending_def send_then_poll_def
          send_progress_def poll_signal_def)
next
  case (5 gp tok outcome s info promptId m)
  then show ?thesis
    by (cases tok)
       (simp_all add: step_def observed_set_def onProgress_def send_then_poll_def
          send_progress_def poll_signal_def)
qed

lemma interrupts_run:
  "interrupts (run gp tok s evs) = interrupts s + length (filter observed_set evs)"
  by (induction evs arbitrary: s) (simp_all add: run_Nil run_Cons interrupts_step)

lemma promise_step_poll_point: "poll_point ev \<Longrightarrow> promise (step gp tok s ev) = promise s"
proof -
  assume "poll_point ev"
  then have "\<not> terminal ev" by (cases ev rule: terminal.cases) simp_all
  then show ?thesis by (rule promise_step_nonterminal)
qed

text \<open>
  Claim C6 says that the signal is polled at the \<open>onPending\<close> and \<open>onProgress\<close>
  callbacks and that an interrupt request is issued when it is set. In both callbacks
  the read of \<open>signal.aborted\<close> comes after the awaited \<open>sendNotification\<close>, and nothing
  catches a rejection of that send. So when the client has gone, with a progress token
  in the request, the signal set and the send rejecting, the \<open>onPending\<close> callback ends
  before the poll: no interrupt request is issued, and the process ends on the
  unhandled rejection. The same callback with a send that returns does issue the
  interrupt request.
\<close>

theorem poll_skipped_when_send_rejects:
  "poll_point (Callback OnPending cancelled) \<and>
   signal_set (Callback OnPending cancelled) \<and>
   rejecting_callback disconnected_world
     = Some (Callback OnPending cancelled, Error ''Not connected'') \<and>
   interrupt_requests (handler s3_env example_request disconnected_world) = 0 \<and>
   unhandled_rejection (handler s3_env example_request disconnected_world)
     = Some (Error ''Not connected'') \<and>
   outcome (handler s3_env example_request disconnected_world)
     = ProcessExits (Error ''Not connected'') \<and>
   interrupt_requests (handler s3_env example_request
     (example_world [Callback OnStart quiet, Callback OnPending cancelled])) = 1"
  by (simp add: handler_def handler_try_def disconnected_world_def example_world_def
      example_request_def send_progress_def initial_state_def run_def step_def onStart_def
      onPending_def send_then_poll_def poll_signal_def cancelled_def Let_def)

subsection \<open>A lost connection\<close>



subsection \<open>The seed\<close>

lemma new_seed_bounds: "0 \<le> r \<Longrightarrow> r < 1 \<Longrightarrow> 0 \<le> new_seed r \<and> new_seed r < 1000000"
  by (simp add: new_seed_def floor_less_iff)

lemma handler_prepared:
  "init_outcome w = None \<Longrightarrow>
   prepared (handler e req w) = Some \<lparr>positive_prompt = prompt req, seed = new_seed (random_draw w)\<rparr>"
  by (simp add: handler_def handler_try_def Let_def split: prod.splits option.splits completion.splits)

text \<open>
  Against claim C8 as it is stated: two invocations whose calls of \<open>Math.random()\<close> return different numbers, 0.5 and
  0.5000001, submit the same seed, 500000.
\<close>

theorem seed_reuse_counterexample:
  "random_draw (example_world []) \<noteq> random_draw ((example_world [])\<lparr>random_draw := 1 / 2 + 1 / 10000000\<rparr>) \<and>
   prepared (handler s3_env example_request (example_world []))
     = Some \<lparr>positive_prompt = ''smiling, outdoors'', seed = 500000\<rparr> \<and>
   prepared (handler s3_env example_request
       ((example_world [])\<lparr>random_draw := 1 / 2 + 1 / 10000000\<rparr>))
     = Some \<lparr>positive_prompt = ''smiling, outdoors'', seed = 500000\<rparr>"
proof -
  let ?w1 = "example_world []"
  let ?w2 = "(example_world [])\<lparr>random_draw := 1 / 2 + 1 / 10000000\<rparr>"
  have a: "new_seed (random_draw ?w1) = 500000"
    by (simp add: new_seed_def example_world_def)
  have "\<lfloor>(1 / 2 + 1 / 10000000) * (1000000 :: real)\<rfloor> = 500000"
    by (rule floor_unique) simp_all
  then have b: "new_seed (random_draw ?w2) = 500000"
    by (simp add: new_seed_def)
  have i1: "init_outcome ?w1 = None" by (simp add: example_world_def)
  have i2: "init_outcome ?w2 = None" by (simp add: example_world_def)
  have p: "prompt example_request = ''smiling, outdoors''" by (simp add: example_request_def)
  have d: "random_draw ?w1 \<noteq> random_draw ?w2" by (simp add: example_world_def)
  have p1: "prepared (handler s3_env example_request ?w1)
      = Some \<lparr>positive_prompt = ''smiling, outdoors'', seed = 500000\<rparr>"
    unfolding handler_prepared [OF i1] a p by (rule refl)
  have p2: "prepared (handler s3_env example_request ?w2)
      = Some \<lparr>positive_prompt = ''smiling, outdoors'', seed = 500000\<rparr>"
    unfolding handler_prepared [OF i2] b p by (rule refl)
  show ?thesis using d p1 p2 by blast
qed

text \<open>
  Claim C8, amended. Every invocation that gets past \<open>api.init()\<close> prepares a job with
  the caller's prompt and the seed \<open>Math.floor(Math.random() * 1_000_000)\<close>, drawn anew
  for the invocation; as \<open>Math.random()\<close> is at least 0 and below 1, the seed is an
  integer from 0 to 999999. Nothing keeps two invocations from drawing the same seed.
\<close>

theorem seed_is_bounded:
  assumes "init_outcome w = None" and "0 \<le> random_draw w" and "random_draw w < 1"
  shows "\<exists>job. prepared (handler e req w) = Some job \<and> positive_prompt job = prompt req \<and>
           seed job = new_seed (random_draw w) \<and> 0 \<le> seed job \<and> seed job < 1000000"
  using handler_prepared [OF assms(1), of e req] new_seed_bounds [OF assms(2,3)] by simp

theorem seed_is_bounded_witness:
  "init_outcome (example_world []) = None \<and> 0 \<le> random_draw (example_world []) \<and>
   random_draw (example_world []) < 1 \<and>
   (\<exists>job. prepared (handler s3_env example_request (example_world [])) = Some job \<and>
      0 \<le> seed job \<and> seed job < 1000000)"
proof -
  have h1: "init_outcome (example_world []) = None" by (simp add: example_world_def)
  have h2: "0 \<le> random_draw (example_world [])" by (simp add: example_world_def)
  have h3: "random_draw (example_world []) < 1" by (simp add: example_world_def)
  show ?thesis
    using seed_is_bounded [OF h1 h2 h3, of s3_env example_request] h1 h2 h3 by blast
qed


subsection \<open>The progress value\<close>

text \<open>
  Against claim C9 as it is stated: an \<open>onProgress\<close> callback with value 3 and maximum 2 makes the handler send the
  progress value 1.5, which is not in the interval from 0 to 1.
\<close>

theorem progress_fraction_counterexample:
  "sent (step example_getPathImage (Some (StrToken ''p1'')) initial_state
      (Callback (OnProgress \<lparr>node = ''3'', pvalue = 3, pmax = 2\<rparr> ''7'') quiet))
     = [\<lparr>method_name = ''notifications/progress'', progressToken = StrToken ''p1'',
         progress = Num (3 / 2)\<rparr>] \<and>
   \<not> in_unit_interval (Num (3 / 2))"
  by (simp add: step_def onProgress_def send_then_poll_def send_progress_def poll_signal_def
      js_div_def initial_state_def quiet_def)

lemma sent_onProgress:
  "sent (step gp tok s (Callback (OnProgress info promptId) m))
   = sent s @
     (case tok of
        None \<Rightarrow> []
      | Some t \<Rightarrow>
          if truthy tok
          then [\<lparr>method_name = ''notifications/progress'', progressToken = t,
                 progress = js_div (pvalue info) (pmax info)\<rparr>]
          else [])"
  by (cases tok)
     (simp_all add: step_def onProgress_def send_then_poll_def send_progress_def poll_signal_def)

text \<open>
  Claim C9, amended. At every \<open>onProgress\<close> callback the handler sends, when the
  caller's progress token is truthy, one notification tagged with that token whose
  progress value is \<open>info.value / info.max\<close>, and otherwise none. The value is the
  quotient of the two numbers when the maximum is not zero. It is not clamped: it is a
  fraction between 0 and 1 when \<open>0 \<le> value \<le> max\<close> and \<open>0 < max\<close>.
\<close>

theorem progress_fraction:
  "sent (step gp tok s (Callback (OnProgress info promptId) m))
   = sent s @
     (case tok of
        None \<Rightarrow> []
      | Some t \<Rightarrow>
          if truthy tok
          then [\<lparr>method_name = ''notifications/progress'', progressToken = t,
                 progress = js_div (pvalue info) (pmax info)\<rparr>]
          else []) \<and>
   (pmax info \<noteq> 0 \<longrightarrow> js_div (pvalue info) (pmax info) = Num (pvalue info / pmax info)) \<and>
   (0 \<le> pvalue info \<and> pvalue info \<le> pmax info \<and> 0 < pmax info \<longrightarrow>
      in_unit_interval (js_div (pvalue info) (pmax info)))"
  using sent_onProgress [of gp tok s info promptId m]
  by (simp add: js_div_def)

theorem progress_fraction_witness:
  "pmax \<lparr>node = ''3'', pvalue = 5, pmax = 20\<rparr> \<noteq> 0 \<and>
   0 \<le> pvalue \<lparr>node = ''3'', pvalue = 5, pmax = 20\<rparr> \<and>
   pvalue \<lparr>node = ''3'', pvalue = 5, pmax = 20\<rparr> \<le> pmax \<lparr>node = ''3'', pvalue = 5, pmax = 20\<rparr> \<and>
   0 < pmax \<lparr>node = ''3'', pvalue = 5, pmax = 20\<rparr> \<and>
   sent (step example_getPathImage (Some (StrToken ''p1'')) initial_state
      (Callback (OnProgress \<lparr>node = ''3'', pvalue = 5, pmax = 20\<rparr> ''7'') quiet))
     = [\<lparr>method_name = ''notifications/progress'', progressToken = StrToken ''p1'',
         progress = Num (1 / 4)\<rparr>] \<and>
   in_unit_interval (js_div 5 20)"
  using progress_fraction [of example_getPathImage "Some (StrToken ''p1'')" initial_state
      "\<lparr>node = ''3'', pvalue = 5, pmax = 20\<rparr>" "''7''" quiet]
  by (simp add: initial_state_def js_div_def)


subsection \<open>Without a progress token nothing is sent\<close>

lemma sent_send_progress:
  "set (sent (snd (send_progress tok v out s)))
   \<subseteq> set (sent s) \<union> {n. truthy tok \<and> tok = Some (progressToken n)}"
  by (auto simp: send_progress_def split: option.splits)

lemma sent_send_then_poll:
  "set (sent (snd (send_then_poll tok v out m s)))
   \<subseteq> set (sent s) \<union> {n. truthy tok \<and> tok = Some (progressToken n)}"
  using sent_send_progress [of tok v out s]
  by (auto simp: send_then_poll_def poll_signal_def split: prod.splits option.splits)

lemma sent_deliver:
  "set (sent (snd (deliver gp tok out s ev)))
   \<subseteq> set (sent s) \<union> {n. truthy tok \<and> tok = Some (progressToken n)}"
proof (cases "(gp, tok, out, s, ev)" rule: deliver.cases)
  case (1 gp tok outcome s data m)
  then show ?thesis
    by (simp add: onFinished_def split: option.splits list.splits sum.splits)
next
  case (2 gp tok outcome s err promptId m)
  then show ?thesis by (simp add: onFailed_def)
next
  case (3 gp tok outcome s m)
  then show ?thesis
    using sent_send_progress [of tok "Num 0" outcome s] by (simp add: onStart_def)
next
  case (4 gp tok outcome s m)
  then show ?thesis
    using sent_send_then_poll [of tok "Num 0" outcome m s] by (simp add: onPending_def)
next
  case (5 gp tok outcome s info promptId m)
  then show ?thesis
    using sent_send_then_poll [of tok "js_div (pvalue info) (pmax info)" outcome m s]
    by (simp add: onProgress_def)
qed

lemma sent_run:
  "set (sent (run gp tok s evs))
   \<subseteq> set (sent s) \<union> {n. truthy tok \<and> tok = Some (progressToken n)}"
proof (induction evs arbitrary: s)
  case Nil
  then show ?case by (simp add: run_Nil)
next
  case (Cons ev evs)
  show ?case
    using Cons.IH [of "step gp tok s ev"] sent_deliver [of gp tok None s ev]
    by (auto simp: run_Cons step_def)
qed

lemma handler_notifications:
  "set (notifications (handler e req w))
   \<subseteq> {n. truthy (meta_progressToken req) \<and> meta_progressToken req = Some (progressToken n)}"
proof -
  let ?tok = "meta_progressToken req"
  let ?G = "{n. truthy ?tok \<and> ?tok = Some (progressToken n)}"
  obtain r s where rs: "send_progress ?tok (Num 0) (first_send w) initial_state = (r, s)"
    by (cases "send_progress ?tok (Num 0) (first_send w) initial_state")
  have s: "set (sent s) \<subseteq> ?G"
    using sent_send_progress [of ?tok "Num 0" "first_send w" initial_state] rs
    by (simp add: initial_state_def)
  let ?s1 = "run (getPathImage w) ?tok s (events w)"
  have s1: "set (sent ?s1) \<subseteq> ?G"
    using sent_run [of "getPathImage w" ?tok s "events w"] s by blast
  have last: "set (sent (snd (deliver (getPathImage w) ?tok out ?s1 ev))) \<subseteq> ?G" for out ev
    using sent_deliver [of "getPathImage w" ?tok out ?s1 ev] s1 by blast
  have "set (notifications (handler_try e req w)) \<subseteq> ?G"
    using rs s s1 last
    by (simp add: handler_try_def Let_def split: option.splits prod.splits)
  then show ?thesis by (simp add: handler_fields)
qed

lemma handler_unhandled_falsy:
  assumes "\<not> truthy (meta_progressToken req)"
  shows "unhandled_rejection (handler e req w) = None"
proof (cases "init_outcome w")
  case (Some err)
  then show ?thesis by (simp add: handler_fields handler_try_def)
next
  case None
  have ok: "first_send_ok req w" using assms by (simp add: first_send_ok_def)
  show ?thesis
    using handler_try_started [OF None ok, of e] assms
    by (auto simp: handler_fields fst_deliver_falsy split: option.splits)
qed

text \<open>
  Claim C10. If the caller supplies no progress token, the handler sends no
  notification in the whole call, before the start and in \<open>onStart\<close>, \<open>onPending\<close> and
  \<open>onProgress\<close> alike; no rejected send can end the call; its outcome does not depend
  on how a send before the start would have ended, and it is the outcome of the same
  call made with any token, as long as no send of that call rejects. In every call,
  each notification sent carries the caller's token: no send is made without one.
\<close>

theorem no_token_no_notifications:
  "(meta_progressToken req = None \<longrightarrow>
      notifications (handler e req w) = [] \<and>
      unhandled_rejection (handler e req w) = None \<and>
      outcome (handler e req (w\<lparr>first_send := fs\<rparr>)) = outcome (handler e req w) \<and>
      (first_send_ok (req\<lparr>meta_progressToken := tok\<rparr>) w \<and>
       callback_sends_ok e (req\<lparr>meta_progressToken := tok\<rparr>) w \<longrightarrow>
         outcome (handler e req w) = outcome (handler e (req\<lparr>meta_progressToken := tok\<rparr>) w))) \<and>
   (\<forall>n\<in>set (notifications (handler e req w)). meta_progressToken req = Some (progressToken n))"
proof -
  have gate: "\<forall>n\<in>set (notifications (handler e req w)). meta_progressToken req = Some (progressToken n)"
    using handler_notifications [of e req w] by blast
  have none: "notifications (handler e req w) = []" if "meta_progressToken req = None"
    using handler_notifications [of e req w] that by (cases "notifications (handler e req w)") auto
  have quiet: "unhandled_rejection (handler e req w') = None" if "meta_progressToken req = None" for w'
    using that by (intro handler_unhandled_falsy) simp
  have indep: "outcome (handler e req (w\<lparr>first_send := fs\<rparr>)) = outcome (handler e req w)"
    if n: "meta_progressToken req = None"
  proof (cases "init_outcome w")
    case None
    have i: "init_outcome (w\<lparr>first_send := fs\<rparr>) = None" using None by simp
    have ok: "first_send_ok req w" "first_send_ok req (w\<lparr>first_send := fs\<rparr>)"
      using n by (simp_all add: first_send_ok_def)
    have f: "final_promise (w\<lparr>first_send := fs\<rparr>) = final_promise w"
      by (simp add: final_promise_def all_events_def)
    show ?thesis
      using handler_outcome [OF None ok(1), of e] handler_outcome [OF i ok(2), of e]
        quiet [OF n, of w] quiet [OF n, of "w\<lparr>first_send := fs\<rparr>"] f
      by (cases "final_promise w") simp_all
  next
    case (Some err)
    then show ?thesis by (simp add: handler_init_fails)
  qed
  have same: "outcome (handler e req w) = outcome (handler e (req\<lparr>meta_progressToken := tok\<rparr>) w)"
    if n: "meta_progressToken req = None"
      and ok: "first_send_ok (req\<lparr>meta_progressToken := tok\<rparr>) w"
      and alive: "callback_sends_ok e (req\<lparr>meta_progressToken := tok\<rparr>) w"
  proof (cases "init_outcome w")
    case None
    have "first_send_ok req w" using n by (simp add: first_send_ok_def)
    then show ?thesis
      using handler_outcome [OF None, of req e] handler_outcome [OF None ok, of e]
        quiet [OF n, of w] alive
      by (cases "final_promise w") (simp_all add: callback_sends_ok_def)
  next
    case (Some err)
    then show ?thesis by (simp add: handler_init_fails)
  qed
  show ?thesis using gate none quiet indep same by blast
qed

theorem no_token_no_notifications_witness:
  "meta_progressToken (example_request\<lparr>meta_progressToken := None\<rparr>) = None \<and>
   first_send_ok (example_request\<lparr>meta_progressToken := None, meta_progressToken := Some (StrToken ''p1'')\<rparr>)
     (example_world [Callback OnStart quiet, Callback OnPending quiet,
        Callback (OnProgress \<lparr>node = ''3'', pvalue = 5, pmax = 20\<rparr> ''7'') quiet,
        Callback (OnFinished one_image) quiet]) \<and>
   callback_sends_ok s3_env
     (example_request\<lparr>meta_progressToken := None, meta_progressToken := Some (StrToken ''p1'')\<rparr>)
     (example_world [Callback OnStart quiet, Callback OnPending quiet,
        Callback (OnProgress \<lparr>node = ''3'', pvalue = 5, pmax = 20\<rparr> ''7'') quiet,
        Callback (OnFinished one_image) quiet]) \<and>
   notifications (handler s3_env (example_request\<lparr>meta_progressToken := None\<rparr>)
     (example_world [Callback OnStart quiet, Callback OnPending quiet,
        Callback (OnProgress \<lparr>node = ''3'', pvalue = 5, pmax = 20\<rparr> ''7'') quiet,
        Callback (OnFinished one_image) quiet])) = [] \<and>
   outcome (handler s3_env (example_request\<lparr>meta_progressToken := None\<rparr>)
     (example_world [Callback OnStart quiet, Callback OnPending quiet,
        Callback (OnProgress \<lparr>node = ''3'', pvalue = 5, pmax = 20\<rparr> ''7'') quiet,
        Callback (OnFinished one_image) quiet]))
   = outcome (handler s3_env example_request
     (example_world [Callback OnStart quiet, Callback OnPending quiet,
        Callback (OnProgress \<lparr>node = ''3'', pvalue = 5, pmax = 20\<rparr> ''7'') quiet,
        Callback (OnFinished one_image) quiet]))"
proof -
  let ?w = "example_world [Callback OnStart quiet, Callback OnPending quiet,
        Callback (OnProgress \<lparr>node = ''3'', pvalue = 5, pmax = 20\<rparr> ''7'') quiet,
        Callback (OnFinished one_image) quiet]"
  let ?r = "example_request\<lparr>meta_progressToken := None, meta_progressToken := Some (StrToken ''p1'')\<rparr>"
  have h1: "meta_progressToken (example_request\<lparr>meta_progressToken := None\<rparr>) = None" by simp
  have h2: "first_send_ok ?r ?w"
    by (simp add: first_send_ok_def example_world_def)
  have i: "init_outcome ?w = None" and n: "rejecting_callback ?w = None"
    by (simp_all add: example_world_def)
  have h3: "callback_sends_ok s3_env ?r ?w"
    unfolding callback_sends_ok_def using i h2 n by (rule handler_no_rejecting)
  have r: "?r = example_request"
    by (simp add: example_request_def)
  show ?thesis
    using no_token_no_notifications [where req = "example_request\<lparr>meta_progressToken := None\<rparr>"
        and e = s3_env and w = ?w and tok = "Some (StrToken ''p1'')" and fs = None] h1 h2 h3
    unfolding r by blast
qed

subsection \<open>The route \<open>POST /messages\<close>\<close>

text \<open>
  A session identifier that is not registered and does not name a property of
  \<open>Object.prototype\<close> gets the response 400, and a registered one is handed to its
  transport.
\<close>

lemma post_messages_unknown_session:
  "transports sessionId = None \<Longrightarrow> sessionId \<notin> set object_prototype_properties \<Longrightarrow>
   post_messages transports sessionId = Status400 ''No transport found for sessionId''"
  by (simp add: post_messages_def get_property_def)

lemma post_messages_after_close:
  "sessionId \<notin> set object_prototype_properties \<Longrightarrow>
   post_messages (sse_close transports sessionId) sessionId
   = Status400 ''No transport found for sessionId''"
  by (simp add: post_messages_def get_property_def sse_close_def)

lemma post_messages_after_open:
  "post_messages (sse_open transports sessionId transport) sessionId = HandlePostMessage transport"
  by (simp add: post_messages_def get_property_def sse_open_def)

lemma post_messages_registered:
  "transports sessionId = Some transport \<Longrightarrow>
   post_messages transports sessionId = HandlePostMessage transport"
  by (simp add: post_messages_def get_property_def)

text \<open>
  Claim C5 says that every session identifier that is not registered gets the response
  400. With no session registered at all, the identifier \<open>constructor\<close> does not: the
  lookup \<open>transports[sessionId]\<close> finds the inherited \<open>Object.prototype.constructor\<close>,
  which is truthy, so the route calls \<open>handlePostMessage\<close> on it and throws a
  \<open>TypeError\<close> instead of answering 400. No tool logic runs.
\<close>

theorem post_messages_inherited_property:
  "(Map.empty :: unit registry) ''constructor'' = None \<and>
   post_messages (Map.empty :: unit registry) ''constructor''
     = RouteThrows (Error ''transport.handlePostMessage is not a function'') \<and>
   post_messages (Map.empty :: unit registry) ''constructor''
     \<noteq> Status400 ''No transport found for sessionId''"
  by (simp add: post_messages_def get_property_def object_prototype_properties_def)

end
